theory Spec2Isabelle
  imports Complex_Main "HOL-Library.Sublist" "HOL-Library.Multiset"
begin

section \<open>Values and records of the quote feed\<close>

text \<open>
  The selector (\<^verbatim>\<open>src/zt_selector.py\<close>, class \<^verbatim>\<open>ZTSelector\<close>) works on the
  dictionaries that \<^verbatim>\<open>json.loads\<close> returns: a quote record is a dictionary from the
  feed's field codes (\<^verbatim>\<open>f12\<close> symbol, \<^verbatim>\<open>f14\<close> name, \<^verbatim>\<open>f2\<close> price, \<^verbatim>\<open>f3\<close> change
  percent, \<^verbatim>\<open>f6\<close> turnover amount, \<^verbatim>\<open>f8\<close> turnover rate, \<^verbatim>\<open>f10\<close> volume ratio,
  \<^verbatim>\<open>f20\<close> float market cap) to JSON values, and the configuration is three such
  dictionaries.

  Conventions of the model.
  \<^item> A Python \<^verbatim>\<open>float\<close> is modelled by the rational number it denotes and float
    arithmetic by exact arithmetic: rounding, overflow, infinities and NaN are outside
    the model, and a property that holds or fails through rounding is not decided here.
  \<^item> A Python \<^verbatim>\<open>str\<close> is modelled by its UTF-8 bytes. The only string operations of
    the source (\<^verbatim>\<open>startswith\<close>, \<^verbatim>\<open>in\<close>, \<^verbatim>\<open>replace\<close>, concatenation) are used with
    ASCII arguments and give the same answers on bytes as on code points.
  \<^item> A raised exception is a value \<open>Inl e\<close>; every \<^verbatim>\<open>try\<close>/\<^verbatim>\<open>except\<close> of the source is
    a case distinction on it. Log output is not modelled.
  \<^item> A quote record is a dictionary. (An element of the feed that is not a dictionary is
    not a record; the handlers of \<^verbatim>\<open>filter_stocks\<close> themselves call \<^verbatim>\<open>stock.get\<close>.)
\<close>

datatype pyval =
    PNone
  | PBool bool
  | PInt int
  | PFloat rat
  | PStr string
  | PList "pyval list"
  | PDict "(string \<times> pyval) list"

datatype pyerr = TypeError | ValueError | AttributeError | KeyError

type_synonym pydict = "string \<rightharpoonup> pyval"

type_synonym stock = pydict

text \<open>\<^verbatim>\<open>d.get(k, default)\<close>\<close>

definition dict_get :: "pydict \<Rightarrow> string \<Rightarrow> pyval \<Rightarrow> pyval" where
  "dict_get d k dflt = (case d k of None \<Rightarrow> dflt | Some v \<Rightarrow> v)"

text \<open>\<^verbatim>\<open>d[k]\<close>\<close>

definition dict_item :: "pydict \<Rightarrow> string \<Rightarrow> pyerr + pyval" where
  "dict_item d k = (case d k of None \<Rightarrow> Inl KeyError | Some v \<Rightarrow> Inr v)"

text \<open>\<^verbatim>\<open>bool(v)\<close>, the truth value of a JSON value.\<close>

fun py_bool :: "pyval \<Rightarrow> bool" where
  "py_bool PNone = False"
| "py_bool (PBool b) = b"
| "py_bool (PInt i) = (i \<noteq> 0)"
| "py_bool (PFloat q) = (q \<noteq> 0)"
| "py_bool (PStr s) = (s \<noteq> [])"
| "py_bool (PList xs) = (xs \<noteq> [])"
| "py_bool (PDict kvs) = (kvs \<noteq> [])"

subsection \<open>\<^verbatim>\<open>float(...)\<close>\<close>

text \<open>
  \<^verbatim>\<open>float(s)\<close> on a string: surrounding whitespace is dropped, then an optional sign, a
  decimal number (digits with an optional fraction, or a fraction alone; single
  underscores between digits are allowed) and an optional exponent. Whitespace is the
  ASCII blank characters. \<open>None\<close> stands for
  \<^verbatim>\<open>ValueError\<close>. The spellings of infinity and NaN have no rational value and are
  rejected by the model.
\<close>

definition is_space :: "char \<Rightarrow> bool" where
  "is_space c = (c \<in> set [CHR '' '', CHR 0x09, CHR 0x0A, CHR 0x0B, CHR 0x0C, CHR 0x0D])"

definition strip :: "string \<Rightarrow> string" where
  "strip s = rev (dropWhile is_space (rev (dropWhile is_space s)))"

definition is_digit :: "char \<Rightarrow> bool" where
  "is_digit c = (c \<in> set ''0123456789'')"

definition digit_val :: "char \<Rightarrow> nat" where
  "digit_val c = of_char c - 48"

definition nat_of_digits :: "string \<Rightarrow> nat" where
  "nat_of_digits ds = foldl (\<lambda>n c. 10 * n + digit_val c) 0 ds"

fun digitpart :: "string \<Rightarrow> bool" where
  "digitpart [] = False"
| "digitpart [c] = is_digit c"
| "digitpart (c # d # cs) =
     (is_digit c \<and> (if d = CHR ''_'' then digitpart cs else digitpart (d # cs)))"

definition remove_char :: "char \<Rightarrow> string \<Rightarrow> string" where
  "remove_char x s = filter (\<lambda>c. c \<noteq> x) s"

definition split_at :: "(char \<Rightarrow> bool) \<Rightarrow> string \<Rightarrow> string \<times> string option" where
  "split_at P s =
     (takeWhile (\<lambda>c. \<not> P c) s,
      case dropWhile (\<lambda>c. \<not> P c) s of [] \<Rightarrow> None | _ # r \<Rightarrow> Some r)"

definition parse_sign :: "string \<Rightarrow> bool \<times> string" where
  "parse_sign s =
     (case s of
        [] \<Rightarrow> (False, s)
      | c # r \<Rightarrow> if c = CHR ''-'' then (True, r) else if c = CHR ''+'' then (False, r) else (False, s))"

definition digits_value :: "string \<Rightarrow> nat" where
  "digits_value ds = nat_of_digits (remove_char CHR ''_'' ds)"

definition parse_mantissa :: "string \<Rightarrow> rat option" where
  "parse_mantissa m =
     (case split_at (\<lambda>c. c = CHR ''.'') m of
        (ip, None) \<Rightarrow> if digitpart ip then Some (of_nat (digits_value ip)) else None
      | (ip, Some fp) \<Rightarrow>
          if (ip = [] \<or> digitpart ip) \<and> (fp = [] \<or> digitpart fp) \<and> \<not> (ip = [] \<and> fp = [])
          then Some (of_nat (digits_value ip)
                     + of_nat (digits_value fp) / 10 ^ length (remove_char CHR ''_'' fp))
          else None)"

definition parse_exponent :: "string \<Rightarrow> int option" where
  "parse_exponent e =
     (case parse_sign e of
        (neg, ds) \<Rightarrow>
          if digitpart ds
          then Some (if neg then - int (digits_value ds) else int (digits_value ds))
          else None)"

definition float_of_str :: "string \<Rightarrow> rat option" where
  "float_of_str s =
     (case parse_sign (strip s) of
        (neg, body) \<Rightarrow>
          (case split_at (\<lambda>c. c = CHR ''e'' \<or> c = CHR ''E'') body of
             (m, eopt) \<Rightarrow>
               (case (parse_mantissa m, case eopt of None \<Rightarrow> Some 0 | Some e \<Rightarrow> parse_exponent e) of
                  (Some q, Some k) \<Rightarrow>
                    Some ((if neg then - q else q)
                          * (if 0 \<le> k then 10 ^ nat k else 1 / 10 ^ nat (- k)))
                | _ \<Rightarrow> None)))"

fun py_float :: "pyval \<Rightarrow> pyerr + rat" where
  "py_float PNone = Inl TypeError"
| "py_float (PBool b) = Inr (if b then 1 else 0)"
| "py_float (PInt i) = Inr (of_int i)"
| "py_float (PFloat q) = Inr q"
| "py_float (PStr s) = (case float_of_str s of None \<Rightarrow> Inl ValueError | Some q \<Rightarrow> Inr q)"
| "py_float (PList xs) = Inl TypeError"
| "py_float (PDict kvs) = Inl TypeError"

section \<open>The filter pipeline (\<^verbatim>\<open>filter_stocks\<close>)\<close>

record filter_params =
  max_price :: rat
  min_limit_up_percent :: rat
  exclude_st :: bool
  exclude_sci_tech_board :: bool
  stock_prefix :: "pyval list"

definition default_prefix :: "pyval list" where
  "default_prefix = [PStr ''0'', PStr ''6'']"

definition default_filter_params :: filter_params where
  "default_filter_params =
     \<lparr>max_price = 40, min_limit_up_percent = 19 / 2, exclude_st = True,
      exclude_sci_tech_board = True, stock_prefix = default_prefix\<rparr>"

text \<open>
  Lines 230--253: the five settings are read inside one \<^verbatim>\<open>try\<close>. Only the two
  \<^verbatim>\<open>float(...)\<close> conversions can raise; then all five fall back to the defaults. A
  \<^verbatim>\<open>stock_prefix\<close> that is not a list, or is the empty list, is replaced by the default.
\<close>

definition get_filter_params :: "pydict \<Rightarrow> filter_params" where
  "get_filter_params config =
     (case py_float (dict_get config ''max_price'' (PInt 40)) of
        Inl e \<Rightarrow> default_filter_params
      | Inr mp \<Rightarrow>
          (case py_float (dict_get config ''min_limit_up_percent'' (PFloat (19 / 2))) of
             Inl e \<Rightarrow> default_filter_params
           | Inr ml \<Rightarrow>
               \<lparr>max_price = mp,
                min_limit_up_percent = ml,
                exclude_st = py_bool (dict_get config ''exclude_st'' (PBool True)),
                exclude_sci_tech_board =
                  py_bool (dict_get config ''exclude_sci_tech_board'' (PBool True)),
                stock_prefix =
                  (case dict_get config ''stock_prefix'' (PList default_prefix) of
                     PList ps \<Rightarrow> if ps = [] then default_prefix else ps
                   | _ \<Rightarrow> default_prefix)\<rparr>))"

text \<open>
  \<^verbatim>\<open>any(stock_code.startswith(prefix) for prefix in stock_prefix)\<close>: a code that is not a
  string has no \<^verbatim>\<open>startswith\<close>; a prefix that is not a string is a \<^verbatim>\<open>TypeError\<close>, but
  only when \<^verbatim>\<open>any\<close> reaches it.
\<close>

fun any_startswith :: "string \<Rightarrow> pyval list \<Rightarrow> pyerr + bool" where
  "any_startswith code [] = Inr False"
| "any_startswith code (PStr p # ps) =
     (if prefix p code then Inr True else any_startswith code ps)"
| "any_startswith code (v # ps) = Inl TypeError"

definition has_prefix :: "pyval list \<Rightarrow> stock \<Rightarrow> pyerr + bool" where
  "has_prefix ps stock =
     (case dict_get stock ''f12'' (PStr []) of
        PStr code \<Rightarrow> any_startswith code ps
      | _ \<Rightarrow> Inl AttributeError)"

text \<open>\<^verbatim>\<open>sub in s\<close> on strings: \<open>sub\<close> occurs in \<open>s\<close> as a contiguous block.\<close>

fun str_contains :: "string \<Rightarrow> string \<Rightarrow> bool" where
  "str_contains sub [] = (sub = [])"
| "str_contains sub (c # cs) = (prefix sub (c # cs) \<or> str_contains sub cs)"

text \<open>\<^verbatim>\<open>'ST' in v\<close>: substring test on a string, membership on a list, key test on a
  dictionary, \<^verbatim>\<open>TypeError\<close> otherwise.\<close>

fun py_in :: "string \<Rightarrow> pyval \<Rightarrow> pyerr + bool" where
  "py_in sub (PStr s) = Inr (str_contains sub s)"
| "py_in sub (PList xs) = Inr (PStr sub \<in> set xs)"
| "py_in sub (PDict kvs) = Inr (sub \<in> set (map fst kvs))"
| "py_in sub v = Inl TypeError"

definition not_st :: "stock \<Rightarrow> pyerr + bool" where
  "not_st stock =
     (case py_in ''ST'' (dict_get stock ''f14'' (PStr [])) of
        Inl e \<Rightarrow> Inl e
      | Inr b \<Rightarrow> Inr (\<not> b))"

definition not_sci_tech :: "stock \<Rightarrow> pyerr + bool" where
  "not_sci_tech stock =
     (case dict_get stock ''f12'' (PStr []) of
        PStr code \<Rightarrow> Inr (\<not> prefix ''688'' code)
      | _ \<Rightarrow> Inl AttributeError)"

text \<open>Lines 305--308: the rescaling of a parsed price.\<close>

definition rescale_price :: "rat \<Rightarrow> rat" where
  "rescale_price price =
     (if price < 1 then price * 1000
      else if price > 1000 then price / 1000
      else price)"

text \<open>Lines 299--308: the price of a record, from the raw field value.\<close>

definition convert_price :: "pyval \<Rightarrow> pyerr + rat" where
  "convert_price price_raw =
     (case (case price_raw of
              PStr s \<Rightarrow> py_float (PStr (remove_char CHR '','' s))
            | _ \<Rightarrow> py_float price_raw) of
        Inl e \<Rightarrow> Inl e
      | Inr price \<Rightarrow> Inr (rescale_price price))"

text \<open>Lines 329--332: the change percent of a record, from the raw field value.\<close>

definition convert_change_percent :: "pyval \<Rightarrow> pyerr + rat" where
  "convert_change_percent change_percent_raw =
     (case change_percent_raw of
        PStr s \<Rightarrow> py_float (PStr (remove_char CHR ''%'' s))
      | _ \<Rightarrow> py_float change_percent_raw)"

definition price_le :: "rat \<Rightarrow> stock \<Rightarrow> pyerr + bool" where
  "price_le mp stock =
     (case convert_price (dict_get stock ''f2'' (PInt 0)) of
        Inl e \<Rightarrow> Inl e
      | Inr price \<Rightarrow> Inr (price \<le> mp))"

definition change_ge :: "rat \<Rightarrow> stock \<Rightarrow> pyerr + bool" where
  "change_ge ml stock =
     (case convert_change_percent (dict_get stock ''f3'' (PInt 0)) of
        Inl e \<Rightarrow> Inl e
      | Inr change_percent \<Rightarrow> Inr (change_percent \<ge> ml))"

text \<open>
  One stage of the pipeline: the loop appends a record when its test is true, and the
  \<^verbatim>\<open>except\<close> of the loop body drops the record whose test raised.
\<close>

definition keep :: "(stock \<Rightarrow> pyerr + bool) \<Rightarrow> stock list \<Rightarrow> stock list" where
  "keep test stocks = filter (\<lambda>stock. test stock = Inr True) stocks"

definition prefix_filtered :: "filter_params \<Rightarrow> stock list \<Rightarrow> stock list" where
  "prefix_filtered p stock_list = keep (has_prefix (stock_prefix p)) stock_list"

definition non_st_stocks :: "filter_params \<Rightarrow> stock list \<Rightarrow> stock list" where
  "non_st_stocks p stocks = (if exclude_st p then keep not_st stocks else stocks)"

definition filtered_stocks :: "filter_params \<Rightarrow> stock list \<Rightarrow> stock list" where
  "filtered_stocks p stocks =
     (if exclude_sci_tech_board p then keep not_sci_tech stocks else stocks)"

definition low_price_stocks :: "filter_params \<Rightarrow> stock list \<Rightarrow> stock list" where
  "low_price_stocks p stocks = keep (price_le (max_price p)) stocks"

definition limit_up_stocks :: "filter_params \<Rightarrow> stock list \<Rightarrow> stock list" where
  "limit_up_stocks p stocks = keep (change_ge (min_limit_up_percent p)) stocks"

definition filter_stocks :: "pydict \<Rightarrow> stock list \<Rightarrow> stock list" where
  "filter_stocks config stock_list =
     (if stock_list = [] then []
      else
        let p = get_filter_params config
        in limit_up_stocks p
             (low_price_stocks p
               (filtered_stocks p
                 (non_st_stocks p
                   (prefix_filtered p stock_list)))))"

section \<open>Scoring (\<^verbatim>\<open>score_stocks\<close>)\<close>

definition and_then :: "pyerr + 'a \<Rightarrow> ('a \<Rightarrow> pyerr + 'b) \<Rightarrow> pyerr + 'b" where
  "and_then m f = (case m of Inl e \<Rightarrow> Inl e | Inr x \<Rightarrow> f x)"

text \<open>A loop whose body may raise: the first exception leaves the loop.\<close>

fun map_all :: "('a \<Rightarrow> pyerr + 'b) \<Rightarrow> 'a list \<Rightarrow> pyerr + 'b list" where
  "map_all f [] = Inr []"
| "map_all f (x # xs) =
     and_then (f x) (\<lambda>y. and_then (map_all f xs) (\<lambda>ys. Inr (y # ys)))"

text \<open>An operand of \<^verbatim>\<open>+\<close>, \<^verbatim>\<open>*\<close> or \<^verbatim>\<open><\<close> against a float: a number, or \<^verbatim>\<open>TypeError\<close>.\<close>

fun py_num :: "pyval \<Rightarrow> pyerr + rat" where
  "py_num (PBool b) = Inr (if b then 1 else 0)"
| "py_num (PInt i) = Inr (of_int i)"
| "py_num (PFloat q) = Inr q"
| "py_num v = Inl TypeError"

text \<open>Lines 355--361: the six settings of the \<^verbatim>\<open>score\<close> group, as stored.\<close>

record raw_weights =
  raw_base_score :: pyval
  raw_volume_ratio_weight :: pyval
  raw_turnover_rate_weight :: pyval
  raw_continuous_limit_up_weight :: pyval
  raw_amount_weight :: pyval
  raw_amount_max_score :: pyval

definition read_score_config :: "pydict \<Rightarrow> pyerr + raw_weights" where
  "read_score_config score_config =
     and_then (dict_item score_config ''base_score'') (\<lambda>b.
     and_then (dict_item score_config ''volume_ratio_weight'') (\<lambda>vw.
     and_then (dict_item score_config ''turnover_rate_weight'') (\<lambda>tw.
     and_then (dict_item score_config ''continuous_limit_up_weight'') (\<lambda>cw.
     and_then (dict_item score_config ''amount_weight'') (\<lambda>aw.
     and_then (dict_item score_config ''amount_max_score'') (\<lambda>am.
       Inr \<lparr>raw_base_score = b, raw_volume_ratio_weight = vw,
            raw_turnover_rate_weight = tw, raw_continuous_limit_up_weight = cw,
            raw_amount_weight = aw, raw_amount_max_score = am\<rparr>))))))"

record weights =
  base_score :: rat
  volume_ratio_weight :: rat
  turnover_rate_weight :: rat
  continuous_limit_up_weight :: rat
  amount_weight :: rat
  amount_max_score :: rat

text \<open>The weights as the arithmetic of lines 380--390 uses them, in that order.\<close>

definition numeric_weights :: "raw_weights \<Rightarrow> pyerr + weights" where
  "numeric_weights r =
     and_then (py_num (raw_base_score r)) (\<lambda>b.
     and_then (py_num (raw_volume_ratio_weight r)) (\<lambda>vw.
     and_then (py_num (raw_turnover_rate_weight r)) (\<lambda>tw.
     and_then (py_num (raw_continuous_limit_up_weight r)) (\<lambda>cw.
     and_then (py_num (raw_amount_weight r)) (\<lambda>aw.
     and_then (py_num (raw_amount_max_score r)) (\<lambda>am.
       Inr \<lparr>base_score = b, volume_ratio_weight = vw, turnover_rate_weight = tw,
            continuous_limit_up_weight = cw, amount_weight = aw,
            amount_max_score = am\<rparr>))))))"

text \<open>Lines 368--376: the indicators of one record.\<close>

record indicators =
  change_percent :: rat
  volume_ratio :: rat
  turnover_rate :: rat
  amount :: rat
  market_cap :: rat
  continuous_limit_up :: int

definition calculate_continuous_limit_up :: "pyval \<Rightarrow> int" where
  "calculate_continuous_limit_up stock_code = 1"

definition read_indicators :: "stock \<Rightarrow> pyerr + indicators" where
  "read_indicators stock =
     and_then (py_float (dict_get stock ''f3'' (PInt 0))) (\<lambda>cp.
     and_then (py_float (dict_get stock ''f10'' (PInt 0))) (\<lambda>vr.
     and_then (py_float (dict_get stock ''f8'' (PInt 0))) (\<lambda>tr.
     and_then (py_float (dict_get stock ''f6'' (PInt 0))) (\<lambda>am.
     and_then (py_float (dict_get stock ''f20'' (PInt 0))) (\<lambda>mc.
       Inr \<lparr>change_percent = cp, volume_ratio = vr, turnover_rate = tr,
            amount = am / 100000000, market_cap = mc / 100000000,
            continuous_limit_up =
              calculate_continuous_limit_up (dict_get stock ''f12'' (PStr []))\<rparr>)))))"

text \<open>Lines 365--396: the score, statement by statement.\<close>

definition calc_score :: "weights \<Rightarrow> indicators \<Rightarrow> rat" where
  "calc_score w i =
     (let score = 0;
          score = score + base_score w;
          score = score + volume_ratio i * volume_ratio_weight w;
          score = score + turnover_rate i * turnover_rate_weight w;
          score = score + of_int (continuous_limit_up i) * continuous_limit_up_weight w;
          score = score + min (amount i * amount_weight w) (amount_max_score w)
      in if 10 \<le> market_cap i \<and> market_cap i \<le> 50 then score + 10
         else if 50 < market_cap i \<and> market_cap i \<le> 100 then score + 5
         else score)"

subsection \<open>The rationale string\<close>

definition digit_char :: "nat \<Rightarrow> char" where
  "digit_char d = ''0123456789'' ! d"

fun str_of_nat :: "nat \<Rightarrow> string" where
  "str_of_nat n =
     (if n < 10 then [digit_char n] else str_of_nat (n div 10) @ [digit_char (n mod 10)])"

declare str_of_nat.simps [simp del]

definition str_of_int :: "int \<Rightarrow> string" where
  "str_of_int i = (if i < 0 then ''-'' @ str_of_nat (nat (- i)) else str_of_nat (nat i))"

definition round_half_even :: "rat \<Rightarrow> int" where
  "round_half_even x =
     (let f = \<lfloor>x\<rfloor>; d = x - of_int f
      in if d < 1 / 2 then f
         else if d > 1 / 2 then f + 1
         else if even f then f else f + 1)"

text \<open>\<^verbatim>\<open>f"{x:.2f}"\<close>: two digits after the point, the exact value rounded half to even.\<close>

definition fmt_2f :: "rat \<Rightarrow> string" where
  "fmt_2f x =
     (let n = nat (round_half_even (\<bar>x\<bar> * 100))
      in (if x < 0 then ''-'' else [])
         @ str_of_nat (n div 100) @ ''.''
         @ [digit_char (n mod 100 div 10), digit_char (n mod 10)])"

definition utf8 :: "nat list \<Rightarrow> string" where
  "utf8 bytes = map char_of bytes"

text \<open>The literals of lines 401--412, as UTF-8.\<close>

definition txt_volume_ratio :: string where
  "txt_volume_ratio = utf8 [0xE9, 0x87, 0x8F, 0xE6, 0xAF, 0x94, 0xE9, 0xAB, 0x98] @ ''(''"

definition txt_turnover :: string where
  "txt_turnover =
     utf8 [0xE6, 0x8D, 0xA2, 0xE6, 0x89, 0x8B, 0xE7, 0x8E, 0x87, 0xE9, 0xAB, 0x98] @ ''(''"

definition txt_continuous :: string where
  "txt_continuous =
     utf8 [0xE8, 0xBF, 0x9E, 0xE7, 0xBB, 0xAD, 0xE6, 0xB6, 0xA8, 0xE5, 0x81, 0x9C]"

definition txt_days :: string where
  "txt_days = utf8 [0xE5, 0xA4, 0xA9]"

definition txt_market_cap :: string where
  "txt_market_cap =
     utf8 [0xE6, 0xB5, 0x81, 0xE9, 0x80, 0x9A, 0xE5, 0xB8, 0x82, 0xE5, 0x80, 0xBC,
           0xE9, 0x80, 0x82, 0xE4, 0xB8, 0xAD] @ ''(''"

definition txt_yi :: string where
  "txt_yi = utf8 [0xE4, 0xBA, 0xBF] @ '')''"

definition txt_amount :: string where
  "txt_amount =
     utf8 [0xE6, 0x88, 0x90, 0xE4, 0xBA, 0xA4, 0xE6, 0xB4, 0xBB, 0xE8, 0xB7, 0x83] @ ''(''"

definition txt_separator :: string where
  "txt_separator = utf8 [0xE3, 0x80, 0x81]"

definition txt_fallback :: string where
  "txt_fallback =
     utf8 [0xE7, 0xBB, 0xBC, 0xE5, 0x90, 0x88, 0xE6, 0x8C, 0x87, 0xE6, 0xA0, 0x87,
           0xE8, 0xAF, 0x84, 0xE5, 0x88, 0x86]"

text \<open>\<^verbatim>\<open>sep.join(parts)\<close>\<close>

fun join :: "string \<Rightarrow> string list \<Rightarrow> string" where
  "join sep [] = []"
| "join sep [x] = x"
| "join sep (x # y # zs) = x @ sep @ join sep (y # zs)"

text \<open>Lines 399--409: the list \<^verbatim>\<open>reason\<close> after the five tests.\<close>

definition reason_list :: "indicators \<Rightarrow> string list" where
  "reason_list i =
     (let reason = [];
          reason = (if volume_ratio i > 3 / 2
                    then reason @ [txt_volume_ratio @ fmt_2f (volume_ratio i) @ '')'']
                    else reason);
          reason = (if turnover_rate i > 3
                    then reason @ [txt_turnover @ fmt_2f (turnover_rate i) @ ''%)'']
                    else reason);
          reason = (if continuous_limit_up i > 1
                    then reason @ [txt_continuous @ str_of_int (continuous_limit_up i) @ txt_days]
                    else reason);
          reason = (if 10 \<le> market_cap i \<and> market_cap i \<le> 50
                    then reason @ [txt_market_cap @ fmt_2f (market_cap i) @ txt_yi]
                    else reason);
          reason = (if amount i > 5
                    then reason @ [txt_amount @ fmt_2f (amount i) @ txt_yi]
                    else reason)
      in reason)"

text \<open>Line 412.\<close>

definition reason_text :: "indicators \<Rightarrow> string" where
  "reason_text i =
     (if reason_list i \<noteq> [] then join txt_separator (reason_list i) else txt_fallback)"

subsection \<open>The loop body and the function\<close>

text \<open>Lines 411--413: the three fields the loop stores into the record.\<close>

definition annotate :: "stock \<Rightarrow> rat \<Rightarrow> string \<Rightarrow> int \<Rightarrow> stock" where
  "annotate stock score reason clu =
     stock(''score'' \<mapsto> PFloat score, ''reason'' \<mapsto> PStr reason,
           ''continuous_limit_up'' \<mapsto> PInt clu)"

text \<open>
  One turn of the loop of lines 364--415. The result pairs the annotated record with the
  value stored under \<^verbatim>\<open>score\<close>, which is the key the sort of line 418 reads back.
\<close>

definition score_one :: "raw_weights \<Rightarrow> stock \<Rightarrow> pyerr + (rat \<times> stock)" where
  "score_one r stock =
     and_then (read_indicators stock) (\<lambda>i.
     and_then (numeric_weights r) (\<lambda>w.
       Inr (calc_score w i,
            annotate stock (calc_score w i) (reason_text i) (continuous_limit_up i))))"

text \<open>
  \<^verbatim>\<open>list.sort(key=..., reverse=True)\<close>: a stable sort in descending order of the key;
  records with equal keys keep their order. (CPython reverses the list, sorts it stably
  in ascending order and reverses it again.)
\<close>

definition sort_scored :: "(rat \<times> 'a) list \<Rightarrow> (rat \<times> 'a) list" where
  "sort_scored scored = rev (sort_key fst (rev scored))"

definition score_stocks :: "pydict \<Rightarrow> stock list \<Rightarrow> pyerr + stock list" where
  "score_stocks score_config stock_list =
     (if stock_list = [] then Inr []
      else
        and_then (read_score_config score_config) (\<lambda>r.
        and_then (map_all (score_one r) stock_list) (\<lambda>scored_stocks.
          Inr (map snd (sort_scored scored_stocks)))))"

section \<open>The run (\<^verbatim>\<open>run\<close>, lines 436--460)\<close>

text \<open>\<^verbatim>\<open>xs[:n]\<close> for an integer \<open>n\<close>: a negative \<open>n\<close> counts from the end.\<close>

definition slice_to :: "'a list \<Rightarrow> int \<Rightarrow> 'a list" where
  "slice_to xs n =
     (if 0 \<le> n then take (nat n) xs else take (nat (int (length xs) + n)) xs)"

text \<open>\<^verbatim>\<open>xs[:v]\<close> for a JSON value \<open>v\<close>.\<close>

fun py_slice_to :: "'a list \<Rightarrow> pyval \<Rightarrow> pyerr + 'a list" where
  "py_slice_to xs (PInt n) = Inr (slice_to xs n)"
| "py_slice_to xs (PBool b) = Inr (slice_to xs (if b then 1 else 0))"
| "py_slice_to xs PNone = Inr xs"
| "py_slice_to xs v = Inl TypeError"

record config =
  cfg_filter :: pydict
  cfg_score :: pydict
  cfg_output :: pydict

datatype outcome = Aborted pyerr | NoOutput | Output "stock list"

text \<open>
  The part of \<^verbatim>\<open>run\<close> between the fetch and the output writer. An exception that
  leaves \<^verbatim>\<open>score_stocks\<close> or the slice is caught by the \<^verbatim>\<open>except\<close> of line 517: the
  run ends there and nothing is written.
\<close>

definition run_core :: "config \<Rightarrow> stock list \<Rightarrow> outcome" where
  "run_core cfg stock_list =
     (if stock_list = [] then NoOutput
      else
        let limit_up = filter_stocks (cfg_filter cfg) stock_list
        in if limit_up = [] then NoOutput
           else
             (case and_then (score_stocks (cfg_score cfg) limit_up) (\<lambda>recommended_stocks.
                   and_then (dict_item (cfg_output cfg) ''top_count'') (\<lambda>top_count.
                     py_slice_to recommended_stocks top_count)) of
                Inl e \<Rightarrow> Aborted e
              | Inr top_stocks \<Rightarrow> if top_stocks = [] then NoOutput else Output top_stocks))"

section \<open>The configuration (\<^verbatim>\<open>load_config\<close>, \<^verbatim>\<open>_validate_config\<close>)\<close>

text \<open>Lines 48--69: \<^verbatim>\<open>default_config\<close>.\<close>

definition default_config :: config where
  "default_config =
     \<lparr>cfg_filter =
        [''max_price'' \<mapsto> PInt 40,
         ''min_limit_up_percent'' \<mapsto> PFloat (19 / 2),
         ''exclude_st'' \<mapsto> PBool True,
         ''exclude_sci_tech_board'' \<mapsto> PBool True,
         ''stock_prefix'' \<mapsto> PList default_prefix],
      cfg_score =
        [''base_score'' \<mapsto> PInt 50,
         ''volume_ratio_weight'' \<mapsto> PInt 5,
         ''turnover_rate_weight'' \<mapsto> PInt 2,
         ''continuous_limit_up_weight'' \<mapsto> PInt 10,
         ''amount_weight'' \<mapsto> PInt 3,
         ''amount_max_score'' \<mapsto> PInt 15],
      cfg_output =
        [''top_count'' \<mapsto> PInt 10,
         ''output_dir'' \<mapsto> PStr ''output'',
         ''auto_open_excel'' \<mapsto> PBool True]\<rparr>"

text \<open>
  \<^verbatim>\<open>isinstance(v, (int, float))\<close> holds of the values on which \<open>py_num\<close> succeeds (a
  Python \<^verbatim>\<open>bool\<close> is an \<^verbatim>\<open>int\<close>), \<^verbatim>\<open>isinstance(v, int)\<close> of integers and booleans.
\<close>

fun is_bool :: "pyval \<Rightarrow> bool" where
  "is_bool (PBool b) = True"
| "is_bool v = False"

definition set_filter :: "config \<Rightarrow> string \<Rightarrow> pyval \<Rightarrow> config" where
  "set_filter c k v = c\<lparr>cfg_filter := (cfg_filter c)(k \<mapsto> v)\<rparr>"

definition set_score :: "config \<Rightarrow> string \<Rightarrow> pyval \<Rightarrow> config" where
  "set_score c k v = c\<lparr>cfg_score := (cfg_score c)(k \<mapsto> v)\<rparr>"

definition set_output :: "config \<Rightarrow> string \<Rightarrow> pyval \<Rightarrow> config" where
  "set_output c k v = c\<lparr>cfg_output := (cfg_output c)(k \<mapsto> v)\<rparr>"

text \<open>Lines 133--135.\<close>

definition check_max_price :: "config \<Rightarrow> pyerr + config" where
  "check_max_price c =
     and_then (dict_item (cfg_filter c) ''max_price'') (\<lambda>v.
       if (case py_num v of Inl e \<Rightarrow> True | Inr x \<Rightarrow> x \<le> 0)
       then Inr (set_filter c ''max_price'' (PInt 40))
       else Inr c)"

text \<open>Lines 138--140.\<close>

definition check_min_limit_up_percent :: "config \<Rightarrow> pyerr + config" where
  "check_min_limit_up_percent c =
     and_then (dict_item (cfg_filter c) ''min_limit_up_percent'') (\<lambda>v.
       if (case py_num v of Inl e \<Rightarrow> True | Inr x \<Rightarrow> \<not> (0 \<le> x \<and> x \<le> 20))
       then Inr (set_filter c ''min_limit_up_percent'' (PFloat (19 / 2)))
       else Inr c)"

text \<open>Lines 143--150.\<close>

definition check_filter_bool :: "string \<Rightarrow> config \<Rightarrow> pyerr + config" where
  "check_filter_bool k c =
     and_then (dict_item (cfg_filter c) k) (\<lambda>v.
       if \<not> is_bool v then Inr (set_filter c k (PBool True)) else Inr c)"

text \<open>Lines 153--155.\<close>

definition check_stock_prefix :: "config \<Rightarrow> pyerr + config" where
  "check_stock_prefix c =
     and_then (dict_item (cfg_filter c) ''stock_prefix'') (\<lambda>v.
       if (case v of PList ps \<Rightarrow> length ps = 0 | _ \<Rightarrow> True)
       then Inr (set_filter c ''stock_prefix'' (PList default_prefix))
       else Inr c)"

text \<open>
  Lines 158--162, one turn of the loop. \<^verbatim>\<open>score_config\<close> is \<^verbatim>\<open>config["score"]\<close>
  itself, so the assignment of line 162 stores the value it has just read from the same
  place.
\<close>

definition check_score :: "string \<Rightarrow> config \<Rightarrow> pyerr + config" where
  "check_score key c =
     and_then (dict_item (cfg_score c) key) (\<lambda>v.
       if (case py_num v of Inl e \<Rightarrow> True | Inr x \<Rightarrow> x < 0)
       then and_then (dict_item (cfg_score c) key) (\<lambda>v'. Inr (set_score c key v'))
       else Inr c)"

definition score_keys :: "string list" where
  "score_keys =
     [''base_score'', ''volume_ratio_weight'', ''turnover_rate_weight'',
      ''continuous_limit_up_weight'', ''amount_weight'', ''amount_max_score'']"

text \<open>Lines 166--168.\<close>

definition check_top_count :: "config \<Rightarrow> pyerr + config" where
  "check_top_count c =
     and_then (dict_item (cfg_output c) ''top_count'') (\<lambda>v.
       if (case v of PInt n \<Rightarrow> n \<le> 0 | PBool b \<Rightarrow> \<not> b | _ \<Rightarrow> True)
       then Inr (set_output c ''top_count'' (PInt 10))
       else Inr c)"

text \<open>Lines 170--172.\<close>

definition check_output_dir :: "config \<Rightarrow> pyerr + config" where
  "check_output_dir c =
     and_then (dict_item (cfg_output c) ''output_dir'') (\<lambda>v.
       if (case v of PStr s \<Rightarrow> s = [] | _ \<Rightarrow> True)
       then Inr (set_output c ''output_dir'' (PStr ''output''))
       else Inr c)"

text \<open>Lines 174--176.\<close>

definition check_auto_open_excel :: "config \<Rightarrow> pyerr + config" where
  "check_auto_open_excel c =
     and_then (dict_item (cfg_output c) ''auto_open_excel'') (\<lambda>v.
       if \<not> is_bool v then Inr (set_output c ''auto_open_excel'' (PBool True)) else Inr c)"

text \<open>
  The body of the \<^verbatim>\<open>try\<close> is a sequence of checks on a dictionary that is changed in
  place; the \<^verbatim>\<open>except\<close> of line 178 ends the sequence and keeps what was changed so far.
\<close>

fun run_checks :: "(config \<Rightarrow> pyerr + config) list \<Rightarrow> config \<Rightarrow> config" where
  "run_checks [] c = c"
| "run_checks (f # fs) c = (case f c of Inl e \<Rightarrow> c | Inr c' \<Rightarrow> run_checks fs c')"

definition validate_config :: "config \<Rightarrow> config" where
  "validate_config config =
     run_checks
       ([check_max_price, check_min_limit_up_percent,
         check_filter_bool ''exclude_st'', check_filter_bool ''exclude_sci_tech_board'',
         check_stock_prefix]
        @ map check_score score_keys
        @ [check_top_count, check_output_dir, check_auto_open_excel])
       config"

section \<open>The specification's reading of the price rule, and example inputs\<close>

text \<open>
  The rescaling rule as the specification words it, on the magnitude of the parsed
  price. It is compared with \<open>rescale_price\<close> below.
\<close>

definition spec_rescale_price :: "rat \<Rightarrow> rat" where
  "spec_rescale_price price =
     (if \<bar>price\<bar> < 1 then price * 1000
      else if \<bar>price\<bar> > 1000 then price / 1000
      else price)"

definition quote_a :: stock where
  "quote_a =
     [''f12'' \<mapsto> PStr ''000001'', ''f14'' \<mapsto> PStr ''Alpha'',
      ''f2'' \<mapsto> PFloat (25 / 2), ''f3'' \<mapsto> PFloat (1001 / 100)]"



definition quote_scored :: stock where
  "quote_scored =
     [''f12'' \<mapsto> PStr ''000001'', ''f14'' \<mapsto> PStr ''Alpha'',
      ''f2'' \<mapsto> PFloat (25 / 2), ''f3'' \<mapsto> PFloat 10,
      ''f10'' \<mapsto> PFloat 2, ''f8'' \<mapsto> PFloat 4,
      ''f6'' \<mapsto> PInt 600000000, ''f20'' \<mapsto> PInt 3000000000]"

definition ind_scored :: indicators where
  "ind_scored =
     \<lparr>change_percent = 10, volume_ratio = 2, turnover_rate = 4,
      amount = 6, market_cap = 30, continuous_limit_up = 1\<rparr>"

definition raw_default :: raw_weights where
  "raw_default =
     \<lparr>raw_base_score = PInt 50, raw_volume_ratio_weight = PInt 5,
      raw_turnover_rate_weight = PInt 2, raw_continuous_limit_up_weight = PInt 10,
      raw_amount_weight = PInt 3, raw_amount_max_score = PInt 15\<rparr>"

definition w_default :: weights where
  "w_default =
     \<lparr>base_score = 50, volume_ratio_weight = 5, turnover_rate_weight = 2,
      continuous_limit_up_weight = 10, amount_weight = 3, amount_max_score = 15\<rparr>"

definition quote_bare :: stock where
  "quote_bare = [''f12'' \<mapsto> PStr ''000003'', ''f14'' \<mapsto> PStr ''Gamma'']"




definition quote_pct :: stock where
  "quote_pct =
     [''f12'' \<mapsto> PStr ''000004'', ''f14'' \<mapsto> PStr ''Delta'',
      ''f2'' \<mapsto> PFloat (25 / 2), ''f3'' \<mapsto> PStr ''10.5%'']"

definition config_bad_score :: config where
  "config_bad_score =
     default_config\<lparr>cfg_score :=
       (cfg_score default_config)(''base_score'' \<mapsto> PInt (- 1),
                                  ''amount_weight'' \<mapsto> PStr ''abc'')\<rparr>"

definition config_bad_filter :: config where
  "config_bad_filter =
     default_config\<lparr>cfg_filter := (cfg_filter default_config)(''max_price'' \<mapsto> PInt (- 3))\<rparr>"

definition quote_dash :: stock where
  "quote_dash = quote_a(''f10'' \<mapsto> PStr ''-'')"

section \<open>Helper facts\<close>

lemmas float_of_str_eval =
  float_of_str_def strip_def is_space_def parse_sign_def split_at_def parse_mantissa_def
  parse_exponent_def digits_value_def nat_of_digits_def remove_char_def is_digit_def digit_val_def







lemma set_keep: "set (keep test stocks) = {s \<in> set stocks. test s = Inr True}"
  by (simp add: keep_def)





lemma params_default:
  "get_filter_params (cfg_filter default_config) = default_filter_params"
  by (simp add: get_filter_params_def default_config_def default_filter_params_def dict_get_def)





text \<open>
  When the two numeric settings convert and \<^verbatim>\<open>stock_prefix\<close> is a non-empty list, the
  settings \<^verbatim>\<open>filter_stocks\<close> works with are the configured ones.
\<close>

lemma get_filter_params_configured:
  assumes "py_float (dict_get config ''max_price'' (PInt 40)) = Inr mp"
    and "py_float (dict_get config ''min_limit_up_percent'' (PFloat (19 / 2))) = Inr ml"
    and "config ''stock_prefix'' = Some (PList ps)" and "ps \<noteq> []"
  shows "get_filter_params config =
     \<lparr>max_price = mp, min_limit_up_percent = ml,
      exclude_st = py_bool (dict_get config ''exclude_st'' (PBool True)),
      exclude_sci_tech_board = py_bool (dict_get config ''exclude_sci_tech_board'' (PBool True)),
      stock_prefix = ps\<rparr>"
  using assms by (simp add: get_filter_params_def dict_get_def)

section \<open>The filter pipeline keeps only records that pass every stage\<close>






section \<open>Price normalization\<close>

text \<open>
  Claim C5, as amended. A string price has its commas removed before it is parsed; the
  parsed value \<open>p\<close> is multiplied by 1000 when \<open>p < 1\<close> (a comparison of the signed
  value, so every negative price is multiplied too), divided by 1000 when \<open>p > 1000\<close>,
  and unchanged otherwise. Raw \<^verbatim>\<open>"1234"\<close> gives 1.234 and raw \<^verbatim>\<open>0.05\<close> gives 50. The
  rule agrees with the reading on magnitudes exactly for the parsed values above \<open>-1\<close>.
\<close>

theorem convert_price_rescales:
  "convert_price (PStr s) =
     (case float_of_str (remove_char CHR '','' s) of
        None \<Rightarrow> Inl ValueError
      | Some p \<Rightarrow> Inr (if p < 1 then p * 1000 else if p > 1000 then p / 1000 else p))
   \<and> convert_price (PFloat q) =
       Inr (if q < 1 then q * 1000 else if q > 1000 then q / 1000 else q)
   \<and> convert_price (PInt n) =
       Inr (if of_int n < (1::rat) then of_int n * 1000
            else if of_int n > (1000::rat) then of_int n / 1000 else of_int n)
   \<and> convert_price (PStr ''1234'') = Inr (1234 / 1000)
   \<and> convert_price (PStr ''1,234.5'') = Inr (12345 / 10000)
   \<and> convert_price (PFloat (5 / 100)) = Inr 50
   \<and> (rescale_price q = spec_rescale_price q \<longleftrightarrow> - 1 < q)"
proof -
  have "rescale_price q = spec_rescale_price q \<longleftrightarrow> - 1 < q"
    by (auto simp: rescale_price_def spec_rescale_price_def abs_if)
  then show ?thesis
    by (simp add: convert_price_def rescale_price_def float_of_str_eval split: option.splits)
qed

text \<open>
  The claim as stated, on magnitudes, fails at the price \<open>-5\<close>: its magnitude lies
  between 1 and 1000, so the stated rule leaves it unchanged, and the code returns
  \<open>-5000\<close>.
\<close>

theorem convert_price_magnitude_counterexample:
  "convert_price (PInt (- 5)) = Inr (- 5000) \<and> spec_rescale_price (- 5) = - 5"
  by (simp add: convert_price_def rescale_price_def spec_rescale_price_def)

section \<open>The score\<close>

lemma and_then_simps [simp]:
  "and_then (Inl e) f = Inl e" "and_then (Inr x) f = f x"
  by (simp_all add: and_then_def)






lemma read_default_weights: "read_score_config (cfg_score default_config) = Inr raw_default"
  by (simp add: read_score_config_def default_config_def dict_item_def raw_default_def)

lemma numeric_raw_default: "numeric_weights raw_default = Inr w_default"
  by (simp add: numeric_weights_def raw_default_def w_default_def)

lemma read_ind_scored: "read_indicators quote_scored = Inr ind_scored"
  by (simp add: read_indicators_def quote_scored_def dict_get_def
      calculate_continuous_limit_up_def ind_scored_def)

lemma calc_score_example: "calc_score w_default ind_scored = 103"
  by (simp add: calc_score_def ind_scored_def w_default_def)



lemma score_one_example:
  "score_one raw_default quote_scored =
     Inr (103, annotate quote_scored 103 (reason_text ind_scored) 1)"
  by (simp add: score_one_def read_ind_scored numeric_raw_default calc_score_example)
     (simp add: ind_scored_def)

lemma score_one_Inr:
  assumes "score_one r stock = Inr (q, stock')"
  shows "\<exists>w i. numeric_weights r = Inr w \<and> read_indicators stock = Inr i
           \<and> q = calc_score w i
           \<and> stock' = annotate stock q (reason_text i) (continuous_limit_up i)"
proof -
  from assms obtain i where i: "read_indicators stock = Inr i"
    unfolding score_one_def by (cases "read_indicators stock") simp_all
  from assms i obtain w where w: "numeric_weights r = Inr w"
    unfolding score_one_def by (cases "numeric_weights r") simp_all
  from assms i w have "q = calc_score w i"
    and "stock' = annotate stock q (reason_text i) (continuous_limit_up i)"
    unfolding score_one_def by auto
  with i w show ?thesis by blast
qed

text \<open>
  Claim C2. The score computed for a candidate is the base score plus volume ratio times
  its weight, plus turnover rate times its weight, plus the consecutive limit-up days
  times their weight, plus the turnover amount (in hundred-millions) times its weight
  capped at \<^verbatim>\<open>amount_max_score\<close>, plus 10 when the float market cap (in
  hundred-millions) lies in \<open>[10, 50]\<close>, 5 when it lies in \<open>(50, 100]\<close> and 0 otherwise;
  this is the value \<^verbatim>\<open>score_stocks\<close> stores under \<^verbatim>\<open>score\<close>. With the default weights,
  the candidate with volume ratio 2, turnover rate 4, one limit-up day, turnover amount
  6 and float cap 30 (both in hundred-millions) scores exactly 103.
\<close>

theorem score_formula:
  "calc_score w i =
     base_score w + volume_ratio i * volume_ratio_weight w
     + turnover_rate i * turnover_rate_weight w
     + of_int (continuous_limit_up i) * continuous_limit_up_weight w
     + min (amount i * amount_weight w) (amount_max_score w)
     + (if 10 \<le> market_cap i \<and> market_cap i \<le> 50 then 10
        else if 50 < market_cap i \<and> market_cap i \<le> 100 then 5 else 0)
   \<and> (score_one r stock = Inr (q, stock') \<longrightarrow>
        (\<exists>w' i'. numeric_weights r = Inr w' \<and> read_indicators stock = Inr i'
           \<and> q = calc_score w' i' \<and> stock' ''score'' = Some (PFloat q)))
   \<and> read_score_config (cfg_score default_config) = Inr raw_default
   \<and> numeric_weights raw_default = Inr w_default
   \<and> read_indicators quote_scored = Inr ind_scored
   \<and> calc_score w_default ind_scored = 103
   \<and> score_one raw_default quote_scored =
       Inr (103, annotate quote_scored 103 (reason_text ind_scored) 1)"
proof -
  have a: "calc_score w i =
     base_score w + volume_ratio i * volume_ratio_weight w
     + turnover_rate i * turnover_rate_weight w
     + of_int (continuous_limit_up i) * continuous_limit_up_weight w
     + min (amount i * amount_weight w) (amount_max_score w)
     + (if 10 \<le> market_cap i \<and> market_cap i \<le> 50 then 10
        else if 50 < market_cap i \<and> market_cap i \<le> 100 then 5 else 0)"
    by (simp add: calc_score_def Let_def)
  have b: "score_one r stock = Inr (q, stock') \<longrightarrow>
        (\<exists>w' i'. numeric_weights r = Inr w' \<and> read_indicators stock = Inr i'
           \<and> q = calc_score w' i' \<and> stock' ''score'' = Some (PFloat q))"
  proof
    assume "score_one r stock = Inr (q, stock')"
    from score_one_Inr[OF this] obtain w' i' where
      "numeric_weights r = Inr w'" "read_indicators stock = Inr i'" "q = calc_score w' i'"
      "stock' = annotate stock q (reason_text i') (continuous_limit_up i')"
      by blast
    moreover from this have "stock' ''score'' = Some (PFloat q)"
      by (simp add: annotate_def)
    ultimately show "\<exists>w' i'. numeric_weights r = Inr w' \<and> read_indicators stock = Inr i'
           \<and> q = calc_score w' i' \<and> stock' ''score'' = Some (PFloat q)"
      by blast
  qed
  from a b read_default_weights numeric_raw_default read_ind_scored calc_score_example
    score_one_example
  show ?thesis by blast
qed

theorem score_formula_witness:
  "score_one raw_default quote_scored =
     Inr (103, annotate quote_scored 103 (reason_text ind_scored) 1)
   \<and> (\<exists>w' i'. numeric_weights raw_default = Inr w' \<and> read_indicators quote_scored = Inr i'
         \<and> (103::rat) = calc_score w' i'
         \<and> annotate quote_scored 103 (reason_text ind_scored) 1 ''score'' = Some (PFloat 103))"
  using score_formula[of w_default ind_scored raw_default quote_scored 103
      "annotate quote_scored 103 (reason_text ind_scored) 1"]
  by blast

section \<open>The rationale string\<close>







section \<open>Absent fields\<close>

lemma absent_price: "stock ''f2'' = None \<Longrightarrow> convert_price (dict_get stock ''f2'' (PInt 0)) = Inr 0"
  by (simp add: dict_get_def convert_price_def rescale_price_def)

lemma absent_change:
  "stock ''f3'' = None \<Longrightarrow> convert_change_percent (dict_get stock ''f3'' (PInt 0)) = Inr 0"
  by (simp add: dict_get_def convert_change_percent_def)

lemma absent_float: "stock k = None \<Longrightarrow> py_float (dict_get stock k (PInt 0)) = Inr 0"
  by (simp add: dict_get_def)

lemma read_indicators_Inr:
  assumes "read_indicators stock = Inr i"
  shows "py_float (dict_get stock ''f3'' (PInt 0)) = Inr (change_percent i)
       \<and> py_float (dict_get stock ''f10'' (PInt 0)) = Inr (volume_ratio i)
       \<and> py_float (dict_get stock ''f8'' (PInt 0)) = Inr (turnover_rate i)
       \<and> py_float (dict_get stock ''f6'' (PInt 0)) = Inr (amount i * 100000000)
       \<and> py_float (dict_get stock ''f20'' (PInt 0)) = Inr (market_cap i * 100000000)
       \<and> continuous_limit_up i = 1"
proof -
  obtain a where a: "py_float (dict_get stock ''f3'' (PInt 0)) = Inr a"
    using assms unfolding read_indicators_def
    by (cases "py_float (dict_get stock ''f3'' (PInt 0))") simp_all
  obtain b where b: "py_float (dict_get stock ''f10'' (PInt 0)) = Inr b"
    using assms a unfolding read_indicators_def
    by (cases "py_float (dict_get stock ''f10'' (PInt 0))") simp_all
  obtain c where c: "py_float (dict_get stock ''f8'' (PInt 0)) = Inr c"
    using assms a b unfolding read_indicators_def
    by (cases "py_float (dict_get stock ''f8'' (PInt 0))") simp_all
  obtain d where d: "py_float (dict_get stock ''f6'' (PInt 0)) = Inr d"
    using assms a b c unfolding read_indicators_def
    by (cases "py_float (dict_get stock ''f6'' (PInt 0))") simp_all
  obtain e where e: "py_float (dict_get stock ''f20'' (PInt 0)) = Inr e"
    using assms a b c d unfolding read_indicators_def
    by (cases "py_float (dict_get stock ''f20'' (PInt 0))") simp_all
  from assms a b c d e have
    "i = \<lparr>change_percent = a, volume_ratio = b, turnover_rate = c,
          amount = d / 100000000, market_cap = e / 100000000,
          continuous_limit_up = calculate_continuous_limit_up (dict_get stock ''f12'' (PStr []))\<rparr>"
    unfolding read_indicators_def by simp
  with a b c d e show ?thesis
    by (simp add: calculate_continuous_limit_up_def)
qed

text \<open>
  Claim C10. A field that is absent from a record is read as 0 and is not an error. A
  record without a price has price 0 after conversion and passes the price stage whenever
  \<^verbatim>\<open>max_price\<close> is positive; a record without a change percent has change percent 0
  and is dropped by the limit-up stage whenever \<^verbatim>\<open>min_limit_up_percent\<close> is positive.
  In scoring, each absent numeric field gives the indicator value 0, and a record with
  none of them scores the base score plus the limit-up weight (plus the cap, should the
  cap be negative).
\<close>

theorem absent_fields_default_to_zero:
  "(stock ''f2'' = None \<longrightarrow>
      convert_price (dict_get stock ''f2'' (PInt 0)) = Inr 0
      \<and> (0 < max_price p \<and> stock \<in> set stocks \<longrightarrow> stock \<in> set (low_price_stocks p stocks)))
   \<and> (stock ''f3'' = None \<longrightarrow>
      convert_change_percent (dict_get stock ''f3'' (PInt 0)) = Inr 0
      \<and> (0 < min_limit_up_percent p \<longrightarrow> stock \<notin> set (limit_up_stocks p stocks)))
   \<and> (read_indicators stock = Inr i \<longrightarrow>
        (stock ''f3'' = None \<longrightarrow> change_percent i = 0)
        \<and> (stock ''f10'' = None \<longrightarrow> volume_ratio i = 0)
        \<and> (stock ''f8'' = None \<longrightarrow> turnover_rate i = 0)
        \<and> (stock ''f6'' = None \<longrightarrow> amount i = 0)
        \<and> (stock ''f20'' = None \<longrightarrow> market_cap i = 0))
   \<and> (stock ''f3'' = None \<and> stock ''f10'' = None \<and> stock ''f8'' = None
        \<and> stock ''f6'' = None \<and> stock ''f20'' = None \<longrightarrow>
        read_indicators stock =
          Inr \<lparr>change_percent = 0, volume_ratio = 0, turnover_rate = 0, amount = 0,
               market_cap = 0, continuous_limit_up = 1\<rparr>
        \<and> calc_score w \<lparr>change_percent = 0, volume_ratio = 0, turnover_rate = 0, amount = 0,
               market_cap = 0, continuous_limit_up = 1\<rparr>
            = base_score w + continuous_limit_up_weight w + min 0 (amount_max_score w))"
proof (intro conjI impI)
  assume "stock ''f2'' = None"
  then show "convert_price (dict_get stock ''f2'' (PInt 0)) = Inr 0" by (rule absent_price)
next
  assume n: "stock ''f2'' = None" and "0 < max_price p \<and> stock \<in> set stocks"
  then have "price_le (max_price p) stock = Inr True"
    by (simp add: price_le_def absent_price)
  with \<open>0 < max_price p \<and> stock \<in> set stocks\<close>
  show "stock \<in> set (low_price_stocks p stocks)"
    by (simp add: low_price_stocks_def set_keep)
next
  assume "stock ''f3'' = None"
  then show "convert_change_percent (dict_get stock ''f3'' (PInt 0)) = Inr 0"
    by (rule absent_change)
next
  assume n: "stock ''f3'' = None" and "0 < min_limit_up_percent p"
  then have "change_ge (min_limit_up_percent p) stock = Inr False"
    by (simp add: change_ge_def absent_change)
  then show "stock \<notin> set (limit_up_stocks p stocks)"
    by (simp add: limit_up_stocks_def set_keep)
next
  assume r: "read_indicators stock = Inr i" and "stock ''f3'' = None"
  with read_indicators_Inr[OF r] absent_float[of stock "''f3''"]
  show "change_percent i = 0" by simp
next
  assume r: "read_indicators stock = Inr i" and "stock ''f10'' = None"
  with read_indicators_Inr[OF r] absent_float[of stock "''f10''"]
  show "volume_ratio i = 0" by simp
next
  assume r: "read_indicators stock = Inr i" and "stock ''f8'' = None"
  with read_indicators_Inr[OF r] absent_float[of stock "''f8''"]
  show "turnover_rate i = 0" by simp
next
  assume r: "read_indicators stock = Inr i" and "stock ''f6'' = None"
  with read_indicators_Inr[OF r] absent_float[of stock "''f6''"]
  show "amount i = 0" by simp
next
  assume r: "read_indicators stock = Inr i" and "stock ''f20'' = None"
  with read_indicators_Inr[OF r] absent_float[of stock "''f20''"]
  show "market_cap i = 0" by simp
next
  assume "stock ''f3'' = None \<and> stock ''f10'' = None \<and> stock ''f8'' = None
        \<and> stock ''f6'' = None \<and> stock ''f20'' = None"
  then show "read_indicators stock =
          Inr \<lparr>change_percent = 0, volume_ratio = 0, turnover_rate = 0, amount = 0,
               market_cap = 0, continuous_limit_up = 1\<rparr>"
    by (simp add: read_indicators_def absent_float calculate_continuous_limit_up_def)
next
  show "calc_score w \<lparr>change_percent = 0, volume_ratio = 0, turnover_rate = 0, amount = 0,
               market_cap = 0, continuous_limit_up = 1\<rparr>
            = base_score w + continuous_limit_up_weight w + min 0 (amount_max_score w)"
    by (simp add: calc_score_def)
qed

theorem absent_fields_default_to_zero_witness:
  "quote_bare ''f2'' = None \<and> quote_bare ''f3'' = None \<and> quote_bare ''f10'' = None
   \<and> quote_bare ''f8'' = None \<and> quote_bare ''f6'' = None \<and> quote_bare ''f20'' = None
   \<and> 0 < max_price default_filter_params \<and> 0 < min_limit_up_percent default_filter_params
   \<and> quote_bare \<in> set [quote_bare]
   \<and> convert_price (dict_get quote_bare ''f2'' (PInt 0)) = Inr 0
   \<and> quote_bare \<in> set (low_price_stocks default_filter_params [quote_bare])
   \<and> quote_bare \<notin> set (limit_up_stocks default_filter_params [quote_bare])
   \<and> read_indicators quote_bare =
          Inr \<lparr>change_percent = 0, volume_ratio = 0, turnover_rate = 0, amount = 0,
               market_cap = 0, continuous_limit_up = 1\<rparr>
   \<and> volume_ratio \<lparr>change_percent = 0, volume_ratio = 0, turnover_rate = 0, amount = 0,
               market_cap = 0, continuous_limit_up = 1\<rparr> = 0
   \<and> calc_score w_default \<lparr>change_percent = 0, volume_ratio = 0, turnover_rate = 0,
               amount = 0, market_cap = 0, continuous_limit_up = 1\<rparr> = 60"
proof -
  have absent: "quote_bare ''f2'' = None" "quote_bare ''f3'' = None" "quote_bare ''f10'' = None"
    "quote_bare ''f8'' = None" "quote_bare ''f6'' = None" "quote_bare ''f20'' = None"
    by (simp_all add: quote_bare_def)
  have pos: "0 < max_price default_filter_params"
    "0 < min_limit_up_percent default_filter_params"
    by (simp_all add: default_filter_params_def)
  have mem: "quote_bare \<in> set [quote_bare]" by simp
  have sixty: "base_score w_default + continuous_limit_up_weight w_default
        + min 0 (amount_max_score w_default) = 60"
    by (simp add: w_default_def)
  from absent_fields_default_to_zero[of quote_bare default_filter_params "[quote_bare]"
      "\<lparr>change_percent = 0, volume_ratio = 0, turnover_rate = 0, amount = 0,
               market_cap = 0, continuous_limit_up = 1\<rparr>" w_default] absent pos mem sixty
  show ?thesis by simp
qed

section \<open>Ranking\<close>









section \<open>What the scoring step returns\<close>











section \<open>A field that does not parse, in the scoring step\<close>

lemma filter_a_pct:
  "filter_stocks (cfg_filter default_config) [quote_a, quote_pct] = [quote_a, quote_pct]"
  by (simp add: filter_stocks_def params_default default_filter_params_def default_prefix_def
      prefix_filtered_def non_st_stocks_def filtered_stocks_def low_price_stocks_def
      limit_up_stocks_def keep_def has_prefix_def not_st_def not_sci_tech_def price_le_def
      change_ge_def convert_price_def convert_change_percent_def rescale_price_def dict_get_def
      quote_a_def quote_pct_def float_of_str_eval)

lemma filter_a:
  "filter_stocks (cfg_filter default_config) [quote_a] = [quote_a]"
  by (simp add: filter_stocks_def params_default default_filter_params_def default_prefix_def
      prefix_filtered_def non_st_stocks_def filtered_stocks_def low_price_stocks_def
      limit_up_stocks_def keep_def has_prefix_def not_st_def not_sci_tech_def price_le_def
      change_ge_def convert_price_def convert_change_percent_def rescale_price_def dict_get_def
      quote_a_def)

lemma score_one_a:
  "score_one raw_default quote_a = Inr (60, annotate quote_a 60 txt_fallback 1)"
  by (simp add: score_one_def read_indicators_def quote_a_def dict_get_def
      calculate_continuous_limit_up_def numeric_raw_default w_default_def calc_score_def
      reason_text_def reason_list_def)

lemma read_indicators_pct: "read_indicators quote_pct = Inl ValueError"
  by (simp add: read_indicators_def quote_pct_def dict_get_def float_of_str_eval)

lemma score_one_pct: "score_one raw_default quote_pct = Inl ValueError"
  by (simp add: score_one_def read_indicators_pct)

lemma score_stocks_a_pct:
  "score_stocks (cfg_score default_config) [quote_a, quote_pct] = Inl ValueError"
  by (simp add: score_stocks_def read_default_weights score_one_a score_one_pct)

lemma score_stocks_a:
  "score_stocks (cfg_score default_config) [quote_a] = Inr [annotate quote_a 60 txt_fallback 1]"
  by (simp add: score_stocks_def read_default_weights score_one_a sort_scored_def)

lemma top_count_default: "dict_item (cfg_output default_config) ''top_count'' = Inr (PInt 10)"
  by (simp add: dict_item_def default_config_def)
lemma filter_a_dash:
  "filter_stocks (cfg_filter default_config) [quote_a, quote_dash] = [quote_a, quote_dash]"
  by (simp add: filter_stocks_def params_default default_filter_params_def default_prefix_def
      prefix_filtered_def non_st_stocks_def filtered_stocks_def low_price_stocks_def
      limit_up_stocks_def keep_def has_prefix_def not_st_def not_sci_tech_def price_le_def
      change_ge_def convert_price_def convert_change_percent_def rescale_price_def dict_get_def
      quote_a_def quote_dash_def)

lemma score_one_dash: "score_one raw_default quote_dash = Inl ValueError"
  by (simp add: score_one_def read_indicators_def quote_dash_def quote_a_def dict_get_def
      float_of_str_eval)

lemma score_stocks_a_dash:
  "score_stocks (cfg_score default_config) [quote_a, quote_dash] = Inl ValueError"
  by (simp add: score_stocks_def read_default_weights score_one_a score_one_dash)


text \<open>
  Claim C3 (evaluation at a failing input). With the default configuration, a record
  whose change percent is the string \<^verbatim>\<open>"10.5%"\<close> passes every filter stage, since the
  filter strips the percent sign, and then makes \<^verbatim>\<open>score_stocks\<close> raise
  \<^verbatim>\<open>ValueError\<close>: the loop of lines 364--415 has no handler and applies \<^verbatim>\<open>float\<close> to the
  raw string. The same happens with a volume ratio \<^verbatim>\<open>"-"\<close>. The exception leaves
  \<^verbatim>\<open>score_stocks\<close> and ends the run, so the well-formed record next to the offending one
  is lost too, while alone it is scored and returned.
\<close>

theorem scoring_aborts_on_percent_string:
  "filter_stocks (cfg_filter default_config) [quote_a, quote_pct] = [quote_a, quote_pct]
   \<and> score_stocks (cfg_score default_config) [quote_a, quote_pct] = Inl ValueError
   \<and> run_core default_config [quote_a, quote_pct] = Aborted ValueError
   \<and> filter_stocks (cfg_filter default_config) [quote_a, quote_dash] = [quote_a, quote_dash]
   \<and> score_stocks (cfg_score default_config) [quote_a, quote_dash] = Inl ValueError
   \<and> run_core default_config [quote_a, quote_dash] = Aborted ValueError
   \<and> run_core default_config [quote_a] = Output [annotate quote_a 60 txt_fallback 1]"
  by (simp add: run_core_def filter_a_pct filter_a_dash filter_a score_stocks_a_pct
      score_stocks_a_dash score_stocks_a top_count_default slice_to_def)

section \<open>Validation of the score group\<close>

lemma check_score_unchanged: "check_score key c = Inr c' \<Longrightarrow> c' = c"
  by (cases "cfg_score c key")
     (auto simp: check_score_def dict_item_def set_score_def map_upd_triv split: if_splits)

lemma run_checks_cfg_score:
  assumes "\<And>f c c'. f \<in> set fs \<Longrightarrow> f c = Inr c' \<Longrightarrow> cfg_score c' = cfg_score c"
  shows "cfg_score (run_checks fs c) = cfg_score c"
  using assms
proof (induction fs arbitrary: c)
  case Nil
  then show ?case by simp
next
  case (Cons f fs)
  show ?case
  proof (cases "f c")
    case (Inl e)
    then show ?thesis by simp
  next
    case (Inr c')
    then have "cfg_score c' = cfg_score c"
      using Cons.prems[of f c c'] by simp
    moreover have "cfg_score (run_checks fs c') = cfg_score c'"
    proof (rule Cons.IH)
      fix g d d'
      assume "g \<in> set fs" "g d = Inr d'"
      then show "cfg_score d' = cfg_score d"
        using Cons.prems[of g d d'] by simp
    qed
    ultimately show ?thesis using Inr by simp
  qed
qed

lemma checks_keep_score:
  "check_max_price c = Inr c' \<Longrightarrow> cfg_score c' = cfg_score c"
  "check_min_limit_up_percent c = Inr c' \<Longrightarrow> cfg_score c' = cfg_score c"
  "check_filter_bool k c = Inr c' \<Longrightarrow> cfg_score c' = cfg_score c"
  "check_stock_prefix c = Inr c' \<Longrightarrow> cfg_score c' = cfg_score c"
  "check_top_count c = Inr c' \<Longrightarrow> cfg_score c' = cfg_score c"
  "check_output_dir c = Inr c' \<Longrightarrow> cfg_score c' = cfg_score c"
  "check_auto_open_excel c = Inr c' \<Longrightarrow> cfg_score c' = cfg_score c"
  by (auto simp: check_max_price_def check_min_limit_up_percent_def check_filter_bool_def
      check_stock_prefix_def check_top_count_def check_output_dir_def
      check_auto_open_excel_def dict_item_def set_filter_def set_output_def
      split: option.splits if_splits)

lemma validate_config_score_unchanged: "cfg_score (validate_config c) = cfg_score c"
  unfolding validate_config_def
  by (rule run_checks_cfg_score)
     (auto simp: score_keys_def dest: checks_keep_score check_score_unchanged)
lemmas check_defs =
  check_max_price_def check_min_limit_up_percent_def check_filter_bool_def
  check_stock_prefix_def check_score_def check_top_count_def check_output_dir_def
  check_auto_open_excel_def dict_item_def set_filter_def set_score_def set_output_def
  score_keys_def default_prefix_def

lemma validate_bad_score_filter:
  "cfg_filter (validate_config config_bad_score) = cfg_filter default_config"
  by (simp add: validate_config_def config_bad_score_def default_config_def check_defs)

lemma validate_bad_score_output:
  "cfg_output (validate_config config_bad_score) = cfg_output default_config"
  by (simp add: validate_config_def config_bad_score_def default_config_def check_defs)

lemma validate_bad_filter_max_price:
  "cfg_filter (validate_config config_bad_filter) ''max_price'' = Some (PInt 40)"
  by (simp add: validate_config_def config_bad_filter_def default_config_def check_defs)

lemma score_stocks_bad_score:
  "score_stocks (cfg_score config_bad_score) [quote_a] = Inl TypeError"
  by (simp add: score_stocks_def read_score_config_def config_bad_score_def
      default_config_def dict_item_def score_one_def read_indicators_def quote_a_def
      dict_get_def calculate_continuous_limit_up_def numeric_weights_def)


text \<open>
  Claim C4 (evaluation at a failing input). \<^verbatim>\<open>_validate_config\<close> leaves the \<^verbatim>\<open>score\<close>
  group as it found it (\<open>validate_config_score_unchanged\<close>): line 162 assigns to
  \<^verbatim>\<open>score_config[key]\<close> the value of \<^verbatim>\<open>config["score"][key]\<close>, which is the same entry.
  A negative base score and a weight that is a string survive validation, where the
  defaults are 50 and 3; a negative \<^verbatim>\<open>max_price\<close> in the \<^verbatim>\<open>filter\<close> group is replaced by
  its default 40. With the string weight in place the run ends in a \<^verbatim>\<open>TypeError\<close>.
\<close>

theorem validate_config_keeps_bad_weights:
  "cfg_score (validate_config config_bad_score) ''base_score'' = Some (PInt (- 1))
   \<and> cfg_score (validate_config config_bad_score) ''amount_weight'' = Some (PStr ''abc'')
   \<and> cfg_score default_config ''base_score'' = Some (PInt 50)
   \<and> cfg_score default_config ''amount_weight'' = Some (PInt 3)
   \<and> cfg_filter (validate_config config_bad_filter) ''max_price'' = Some (PInt 40)
   \<and> run_core (validate_config config_bad_score) [quote_a] = Aborted TypeError"
proof -
  have "cfg_score config_bad_score ''base_score'' = Some (PInt (- 1))"
    "cfg_score config_bad_score ''amount_weight'' = Some (PStr ''abc'')"
    "cfg_score default_config ''base_score'' = Some (PInt 50)"
    "cfg_score default_config ''amount_weight'' = Some (PInt 3)"
    by (simp_all add: config_bad_score_def default_config_def)
  moreover have "run_core (validate_config config_bad_score) [quote_a] = Aborted TypeError"
    by (simp add: run_core_def validate_bad_score_filter validate_config_score_unchanged
        filter_a score_stocks_bad_score)
  ultimately show ?thesis
    by (simp add: validate_config_score_unchanged validate_bad_filter_max_price)
qed

section \<open>The score as a function of the volume ratio, in exact arithmetic\<close>

text \<open>
  With every operation exact, a larger volume ratio gives a strictly larger score when
  its weight is positive. Python evaluates the same expression in binary floating
  point, where each operation rounds and a small increase of the volume ratio can be
  absorbed; that behaviour is outside this model.
\<close>

lemma calc_score_volume_ratio_exact:
  assumes "volume_ratio i < x" and "0 < volume_ratio_weight w"
  shows "calc_score w i < calc_score w (i\<lparr>volume_ratio := x\<rparr>)"
  using assms by (simp add: calc_score_def Let_def)

end
